theory Spec2Isabelle
  imports Complex_Main "HOL-Library.Monad_Syntax"
begin

section \<open>JavaScript values\<close>

text \<open>
  The server (\<^verbatim>\<open>server/app.js\<close>) handles values that \<^verbatim>\<open>express.json()\<close> and
  \<^verbatim>\<open>res.json()\<close> parsed from JSON text, plus \<^verbatim>\<open>undefined\<close> for what is absent.
  An object is the list of its own properties, read with \<open>map_of\<close>. The program
  computes with no number of a body: it only tests one for truth, converts it with
  \<^verbatim>\<open>String\<close> or passes it on. So a number is held as the text \<^verbatim>\<open>String\<close> gives for
  it, which tells any two numbers apart but \<^verbatim>\<open>0\<close> and \<^verbatim>\<open>-0\<close>: \<open>JNum ''42''\<close>,
  \<open>JNum ''0.5''\<close>, \<open>JNum ''-3''\<close>, \<open>JNum ''1e+21''\<close> for \<^verbatim>\<open>1e21\<close>, \<open>JNum ''0''\<close> for
  both zeros, \<open>JNum ''Infinity''\<close> for what a numeral too large parses to.
\<close>

datatype json =
    JUndefined
  | JNull
  | JBool bool
  | JNum string
  | JStr string
  | JArr "json list"
  | JObj "(string \<times> json) list"

text \<open>
  What is thrown: \<^verbatim>\<open>new Error(msg)\<close> of the adapters, the engine's \<^verbatim>\<open>TypeError\<close>
  (reading a property of \<^verbatim>\<open>null\<close>, calling what is not a function, an object with no
  primitive value), and \<^verbatim>\<open>SyntaxError\<close> of a body that is not JSON.
\<close>

datatype error = Error string | TypeError | SyntaxError

definition nullish :: "json \<Rightarrow> bool" where
  "nullish v = (v = JUndefined \<or> v = JNull)"

text \<open>
  Truthiness, as \<^verbatim>\<open>!v\<close>, \<^verbatim>\<open>v || w\<close> and \<^verbatim>\<open>c ? a : b\<close> test it. The falsy numbers
  are \<^verbatim>\<open>0\<close>, \<^verbatim>\<open>-0\<close> and \<^verbatim>\<open>NaN\<close>.
\<close>

fun truthy :: "json \<Rightarrow> bool" where
  "truthy JUndefined = False"
| "truthy JNull = False"
| "truthy (JBool b) = b"
| "truthy (JNum n) = (n \<noteq> ''0'' \<and> n \<noteq> ''NaN'')"
| "truthy (JStr s) = (s \<noteq> [])"
| "truthy (JArr xs) = True"
| "truthy (JObj kvs) = True"

text \<open>\<^verbatim>\<open>a || b\<close>\<close>

definition or_else :: "json \<Rightarrow> json \<Rightarrow> json" where
  "or_else a b = (if truthy a then a else b)"

text \<open>
  \<^verbatim>\<open>v.k\<close> for the property names this program reads (\<^verbatim>\<open>messages\<close>, \<^verbatim>\<open>intent\<close>,
  \<^verbatim>\<open>role\<close>, \<^verbatim>\<open>content\<close>, \<^verbatim>\<open>text\<close>, \<^verbatim>\<open>candidates\<close>, \<^verbatim>\<open>parts\<close>, \<^verbatim>\<open>choices\<close>,
  \<^verbatim>\<open>message\<close>): none of them is on a prototype, so only an object can have one.
  \<open>own_prop\<close> is the read on a value that is neither \<^verbatim>\<open>null\<close> nor \<^verbatim>\<open>undefined\<close>;
  \<open>get_prop\<close> is \<^verbatim>\<open>v.k\<close>, which throws on those two; \<open>opt_prop\<close> is \<^verbatim>\<open>v?.k\<close>, whose
  \<open>None\<close> short-circuits the rest of the chain.
\<close>

fun own_prop :: "json \<Rightarrow> string \<Rightarrow> json" where
  "own_prop (JObj kvs) k = (case map_of kvs k of Some v \<Rightarrow> v | None \<Rightarrow> JUndefined)"
| "own_prop v k = JUndefined"

definition get_prop :: "json \<Rightarrow> string \<Rightarrow> error + json" where
  "get_prop v k = (if nullish v then Inl TypeError else Inr (own_prop v k))"

definition opt_prop :: "json \<Rightarrow> string \<Rightarrow> json option" where
  "opt_prop v k = (if nullish v then None else Some (own_prop v k))"

text \<open>\<^verbatim>\<open>v[0]\<close> on a value that is neither \<^verbatim>\<open>null\<close> nor \<^verbatim>\<open>undefined\<close>, then \<^verbatim>\<open>v[0]\<close> and \<^verbatim>\<open>v?.[0]\<close>.\<close>

fun index0 :: "json \<Rightarrow> json" where
  "index0 (JArr xs) = (case xs of [] \<Rightarrow> JUndefined | x # _ \<Rightarrow> x)"
| "index0 (JStr s) = (case s of [] \<Rightarrow> JUndefined | c # _ \<Rightarrow> JStr [c])"
| "index0 (JObj kvs) = (case map_of kvs ''0'' of Some v \<Rightarrow> v | None \<Rightarrow> JUndefined)"
| "index0 v = JUndefined"

definition get_index0 :: "json \<Rightarrow> error + json" where
  "get_index0 v = (if nullish v then Inl TypeError else Inr (index0 v))"

definition opt_index0 :: "json \<Rightarrow> json option" where
  "opt_index0 v = (if nullish v then None else Some (index0 v))"

text \<open>Running a list of steps in order, stopping at the first one that throws.\<close>

fun seq_sum :: "('e + 'a) list \<Rightarrow> 'e + 'a list" where
  "seq_sum [] = Inr []"
| "seq_sum (r # rs) =
     (case r of
        Inl e \<Rightarrow> Inl e
      | Inr x \<Rightarrow> (case seq_sum rs of Inl e \<Rightarrow> Inl e | Inr xs \<Rightarrow> Inr (x # xs)))"

fun intercalate :: "string \<Rightarrow> string list \<Rightarrow> string" where
  "intercalate sep [] = []"
| "intercalate sep [s] = s"
| "intercalate sep (s # t # ts) = s @ sep @ intercalate sep (t # ts)"

text \<open>
  The decimal numeral of a natural number, as the template literals of the adapters render
  \<^verbatim>\<open>res.status\<close>, an HTTP status code.
\<close>

function show_nat :: "nat \<Rightarrow> string" where
  "show_nat n =
     (if n < 10 then [''0123456789'' ! n]
      else show_nat (n div 10) @ [''0123456789'' ! (n mod 10)])"
  by pat_completeness auto
termination
  by (relation "measure id") auto

declare show_nat.simps [simp del]

text \<open>
  \<^verbatim>\<open>String(v)\<close>. A number gives its text. An array is joined with commas, \<^verbatim>\<open>null\<close> and \<^verbatim>\<open>undefined\<close> elements
  giving the empty string. An object goes through its \<^verbatim>\<open>toString\<close> and \<^verbatim>\<open>valueOf\<close>:
  the inherited \<^verbatim>\<open>toString\<close> answers \<^verbatim>\<open>[object Object]\<close>, but an own property of that
  name (parsed from JSON, so never a function) hides it, the inherited \<^verbatim>\<open>valueOf\<close>
  returns the object itself, and the conversion throws a \<^verbatim>\<open>TypeError\<close>.
\<close>

fun to_String :: "json \<Rightarrow> error + string" where
  "to_String JUndefined = Inr ''undefined''"
| "to_String JNull = Inr ''null''"
| "to_String (JBool b) = Inr (if b then ''true'' else ''false'')"
| "to_String (JNum n) = Inr n"
| "to_String (JStr s) = Inr s"
| "to_String (JArr xs) =
     (case seq_sum (map (\<lambda>x. if x = JUndefined \<or> x = JNull then Inr [] else to_String x) xs) of
        Inl e \<Rightarrow> Inl e
      | Inr ss \<Rightarrow> Inr (intercalate '','' ss))"
| "to_String (JObj kvs) =
     (if ''toString'' \<in> set (map fst kvs) then Inl TypeError else Inr ''[object Object]'')"

text \<open>\<^verbatim>\<open>xs.join(sep)\<close>\<close>

definition js_join :: "string \<Rightarrow> json list \<Rightarrow> error + string" where
  "js_join sep xs =
     (case seq_sum (map (\<lambda>x. if nullish x then Inr [] else to_String x) xs) of
        Inl e \<Rightarrow> Inl e
      | Inr ss \<Rightarrow> Inr (intercalate sep ss))"

text \<open>\<^verbatim>\<open>s.startsWith(p)\<close>\<close>

definition startsWith :: "string \<Rightarrow> string \<Rightarrow> bool" where
  "startsWith s p = (take (length p) s = p)"

section \<open>Configuration and the upstream\<close>

text \<open>
  Lines 16--17: \<^verbatim>\<open>process.env.GOOGLE_API_KEY || ''\<close> and the same for OpenAI, read once.
  An environment variable is a string or absent.
\<close>

record config =
  GOOGLE_API_KEY :: string
  OPENAI_API_KEY :: string

definition env_or_empty :: "string option \<Rightarrow> string" where
  "env_or_empty v = (case v of None \<Rightarrow> [] | Some s \<Rightarrow> if s \<noteq> [] then s else [])"

definition load_config :: "string option \<Rightarrow> string option \<Rightarrow> config" where
  "load_config g k = \<lparr>GOOGLE_API_KEY = env_or_empty g, OPENAI_API_KEY = env_or_empty k\<rparr>"

text \<open>
  The two request bodies, as the objects handed to \<^verbatim>\<open>JSON.stringify\<close>, and the request
  handed to \<^verbatim>\<open>_fetch\<close>.
\<close>

record gemini_part =
  part_text :: string

record gemini_content =
  role :: string
  parts :: "gemini_part list"

record openai_body =
  model :: string
  messages :: "json list"
  temperature :: rat
  max_tokens :: nat

datatype request_body = GeminiBody "gemini_content list" | OpenAIBody openai_body

record http_request =
  url :: string
  http_method :: string
  headers :: "(string \<times> string) list"
  body :: request_body

text \<open>
  What \<^verbatim>\<open>_fetch\<close> resolves to: \<^verbatim>\<open>res.ok\<close>, \<^verbatim>\<open>res.status\<close> and the outcome of
  \<^verbatim>\<open>res.json()\<close>. The upstream is a function from the request to that, or to a
  rejection.
\<close>

record fetch_response =
  ok :: bool
  status :: nat
  json_of :: "error + json"

type_synonym upstream = "http_request \<Rightarrow> error + fetch_response"

text \<open>
  What a route handler did: the response it sent (\<^verbatim>\<open>res.status(..).json(..)\<close>, the
  status being 200 unless set), the requests it made upstream in order, and what it wrote
  with \<^verbatim>\<open>console.error\<close>.
\<close>

record http_reply =
  reply_status :: nat
  reply_body :: json

record handled =
  response :: http_reply
  fetched :: "http_request list"
  logged :: "error list"

section \<open>The provider adapters\<close>

text \<open>Lines 45--48: one element of \<^verbatim>\<open>contents\<close>.\<close>

definition gemini_content_of :: "json \<Rightarrow> error + gemini_content" where
  "gemini_content_of m =
     (case get_prop m ''role'' of
        Inl e \<Rightarrow> Inl e
      | Inr r \<Rightarrow>
          (case get_prop m ''content'' of
             Inl e \<Rightarrow> Inl e
           | Inr c \<Rightarrow>
               (case to_String (or_else c (JStr [])) of
                  Inl e \<Rightarrow> Inl e
                | Inr s \<Rightarrow>
                    Inr \<lparr>role = (if r = JStr ''assistant'' then ''model'' else ''user''),
                         parts = [\<lparr>part_text = s\<rparr>]\<rparr>)))"

definition gemini_contents :: "json list \<Rightarrow> error + gemini_content list" where
  "gemini_contents ms = seq_sum (map gemini_content_of ms)"

text \<open>
  Lines 57--58: \<^verbatim>\<open>data?.candidates?.[0]?.content?.parts?.map((p) => p.text).join('')\<close>.
  \<open>None\<close> is the chain cut short, whose value is \<^verbatim>\<open>undefined\<close>.
\<close>

definition map_text_join :: "json \<Rightarrow> error + string" where
  "map_text_join ps =
     (case ps of
        JArr xs \<Rightarrow>
          (case seq_sum (map (\<lambda>p. get_prop p ''text'') xs) of
             Inl e \<Rightarrow> Inl e
           | Inr ts \<Rightarrow> js_join [] ts)
      | _ \<Rightarrow> Inl TypeError)"

definition candidate_parts :: "json \<Rightarrow> json option" where
  "candidate_parts data =
     do {
       cs \<leftarrow> opt_prop data ''candidates'';
       c0 \<leftarrow> opt_index0 cs;
       ct \<leftarrow> opt_prop c0 ''content'';
       ps \<leftarrow> opt_prop ct ''parts'';
       if nullish ps then None else Some ps
     }"

definition gemini_text :: "json \<Rightarrow> error + string" where
  "gemini_text data =
     (case candidate_parts data of
        None \<Rightarrow> Inr ''(no content)''
      | Some ps \<Rightarrow>
          (case map_text_join ps of
             Inl e \<Rightarrow> Inl e
           | Inr s \<Rightarrow> Inr (if s \<noteq> [] then s else ''(no content)'')))"

text \<open>Lines 40--60. The result is the value returned or the error thrown, with the requests made.\<close>

definition gemini_request :: "config \<Rightarrow> gemini_content list \<Rightarrow> http_request" where
  "gemini_request cfg contents =
     \<lparr>url = ''https://generativelanguage.googleapis.com/v1beta/'' @ ''models/gemini-1.5-flash''
             @ '':generateContent?key='' @ GOOGLE_API_KEY cfg,
      http_method = ''POST'',
      headers = [(''Content-Type'', ''application/json'')],
      body = GeminiBody contents\<rparr>"

definition callGemini :: "config \<Rightarrow> upstream \<Rightarrow> json list \<Rightarrow> (error + json) \<times> http_request list" where
  "callGemini cfg fetch ms =
     (case gemini_contents ms of
        Inl e \<Rightarrow> (Inl e, [])
      | Inr contents \<Rightarrow>
          (let req = gemini_request cfg contents in
           (case fetch req of
              Inl e \<Rightarrow> Inl e
            | Inr res \<Rightarrow>
                if \<not> ok res then Inl (Error (''Gemini HTTP '' @ show_nat (status res)))
                else
                  (case json_of res of
                     Inl e \<Rightarrow> Inl e
                   | Inr data \<Rightarrow>
                       (case gemini_text data of
                          Inl e \<Rightarrow> Inl e
                        | Inr text \<Rightarrow>
                            Inr (JObj [(''role'', JStr ''assistant''), (''content'', JStr text)]))),
            [req])))"

text \<open>Lines 70--87.\<close>

definition openai_request :: "config \<Rightarrow> json list \<Rightarrow> http_request" where
  "openai_request cfg ms =
     \<lparr>url = ''https://api.openai.com/v1/chat/completions'',
      http_method = ''POST'',
      headers = [(''Content-Type'', ''application/json''),
                 (''Authorization'', ''Bearer '' @ OPENAI_API_KEY cfg)],
      body = OpenAIBody \<lparr>model = ''gpt-3.5-turbo'', messages = ms,
                         temperature = 0.2, max_tokens = 300\<rparr>\<rparr>"

definition callOpenAI :: "config \<Rightarrow> upstream \<Rightarrow> json list \<Rightarrow> (error + json) \<times> http_request list" where
  "callOpenAI cfg fetch ms =
     (let req = openai_request cfg ms in
      (case fetch req of
         Inl e \<Rightarrow> Inl e
       | Inr res \<Rightarrow>
           if \<not> ok res then Inl (Error (''OpenAI HTTP '' @ show_nat (status res)))
           else
             (case json_of res of
                Inl e \<Rightarrow> Inl e
              | Inr data \<Rightarrow>
                  (case get_prop data ''choices'' of
                     Inl e \<Rightarrow> Inl e
                   | Inr cs \<Rightarrow>
                       (case get_index0 cs of
                          Inl e \<Rightarrow> Inl e
                        | Inr c0 \<Rightarrow> get_prop c0 ''message''))),
       [req]))"

section \<open>The routes\<close>

text \<open>Lines 94--104: \<^verbatim>\<open>GET /api/health\<close>; \<open>node\<close> is \<^verbatim>\<open>process.versions.node\<close>.\<close>

definition health_handler :: "config \<Rightarrow> string \<Rightarrow> handled" where
  "health_handler cfg node =
     \<lparr>response =
        \<lparr>reply_status = 200,
         reply_body = JObj [(''ok'', JBool True),
                            (''provider'',
                               JStr (if GOOGLE_API_KEY cfg \<noteq> [] then ''google''
                                     else if OPENAI_API_KEY cfg \<noteq> [] then ''openai''
                                     else ''none'')),
                            (''node'', JStr node)]\<rparr>,
      fetched = [], logged = []\<rparr>"

text \<open>
  Lines 110--139: \<^verbatim>\<open>POST /api/chat\<close>. \<open>catch_500\<close> is the \<^verbatim>\<open>catch\<close> block, \<open>respond\<close>
  what follows an \<^verbatim>\<open>await\<close> of an adapter: its reply sent under the provider's tag, or
  its error caught.
\<close>

definition catch_500 :: "error \<Rightarrow> http_request list \<Rightarrow> handled" where
  "catch_500 err reqs =
     \<lparr>response = \<lparr>reply_status = 500,
                  reply_body = JObj [(''error'', JStr ''Failed to process chat request.'')]\<rparr>,
      fetched = reqs, logged = [err]\<rparr>"

definition respond :: "(error + json) \<times> http_request list \<Rightarrow> string \<Rightarrow> handled" where
  "respond r tag =
     (case r of
        (Inl err, reqs) \<Rightarrow> catch_500 err reqs
      | (Inr reply, reqs) \<Rightarrow>
          \<lparr>response = \<lparr>reply_status = 200,
                       reply_body = JObj [(''message'', reply), (''provider'', JStr tag)]\<rparr>,
           fetched = reqs, logged = []\<rparr>)"

definition fallback_reply :: json where
  "fallback_reply =
     JObj [(''message'',
              JObj [(''role'', JStr ''assistant''),
                    (''content'',
                       JStr ''No AI provider configured. Set GOOGLE_API_KEY (Gemini) or OPENAI_API_KEY on the server.'')]),
           (''provider'', JStr ''none'')]"

definition chat_handler :: "config \<Rightarrow> upstream \<Rightarrow> json \<Rightarrow> handled" where
  "chat_handler cfg fetch req_body =
     (case get_prop (or_else req_body (JObj [])) ''messages'' of
        Inl err \<Rightarrow> catch_500 err []
      | Inr msgs \<Rightarrow>
          (case msgs of
             JArr ms \<Rightarrow>
               if GOOGLE_API_KEY cfg \<noteq> [] \<or> startsWith (GOOGLE_API_KEY cfg) ''AIza''
               then respond (callGemini cfg fetch ms) ''google''
               else if OPENAI_API_KEY cfg \<noteq> []
               then respond (callOpenAI cfg fetch ms) ''openai''
               else \<lparr>response = \<lparr>reply_status = 200, reply_body = fallback_reply\<rparr>,
                     fetched = [], logged = []\<rparr>
           | _ \<Rightarrow>
               \<lparr>response = \<lparr>reply_status = 400,
                            reply_body = JObj [(''error'', JStr ''Body must include messages: []'')]\<rparr>,
                fetched = [], logged = []\<rparr>))"

text \<open>
  Lines 146--150: \<^verbatim>\<open>POST /api/intent\<close>. There is no \<^verbatim>\<open>try\<close> here: \<open>Inl\<close> is an error
  that escapes the handler.
\<close>

definition intent_handler :: "json \<Rightarrow> error + http_reply" where
  "intent_handler req_body =
     (case get_prop (or_else req_body (JObj [])) ''intent'' of
        Inl err \<Rightarrow> Inl err
      | Inr intent \<Rightarrow>
          if \<not> truthy intent
          then Inr \<lparr>reply_status = 400, reply_body = JObj [(''error'', JStr ''No intent provided.'')]\<rparr>
          else Inr \<lparr>reply_status = 200,
                    reply_body = JObj [(''status'', JStr ''received''), (''intent'', intent)]\<rparr>)"

text \<open>The branch of lines 117--134 that a chat request with a messages array takes.\<close>

datatype provider = Google | OpenAI | NoProvider

definition chat_route :: "config \<Rightarrow> provider" where
  "chat_route cfg =
     (if GOOGLE_API_KEY cfg \<noteq> [] \<or> startsWith (GOOGLE_API_KEY cfg) ''AIza'' then Google
      else if OPENAI_API_KEY cfg \<noteq> [] then OpenAI
      else NoProvider)"

definition provider_tag :: "provider \<Rightarrow> string" where
  "provider_tag p = (case p of Google \<Rightarrow> ''google'' | OpenAI \<Rightarrow> ''openai'' | NoProvider \<Rightarrow> ''none'')"

text \<open>\<^verbatim>\<open>Array.isArray(v)\<close>\<close>

definition isArray :: "json \<Rightarrow> bool" where
  "isArray v = (case v of JArr xs \<Rightarrow> True | _ \<Rightarrow> False)"

section \<open>The shapes the adapters are written for\<close>

text \<open>
  The \<^verbatim>\<open>@param\<close> of both adapters: a message is \<^verbatim>\<open>{role: string, content: string}\<close>.
\<close>

definition is_ChatMessage :: "json \<Rightarrow> bool" where
  "is_ChatMessage m =
     (case m of
        JObj kvs \<Rightarrow>
          (case own_prop m ''role'' of JStr r \<Rightarrow> True | _ \<Rightarrow> False) \<and>
          (case own_prop m ''content'' of JStr c \<Rightarrow> True | _ \<Rightarrow> False)
      | _ \<Rightarrow> False)"

text \<open>
  A part of a Google candidate: an object whose \<^verbatim>\<open>text\<close>, when it has one, is a string;
  \<open>text_of\<close> is that string, empty for a part without text.
\<close>

definition is_part :: "json \<Rightarrow> bool" where
  "is_part p =
     (case p of
        JObj kvs \<Rightarrow> (case own_prop p ''text'' of JStr t \<Rightarrow> True | JUndefined \<Rightarrow> True | _ \<Rightarrow> False)
      | _ \<Rightarrow> False)"

definition text_of :: "json \<Rightarrow> string" where
  "text_of p = (case own_prop p ''text'' of JStr t \<Rightarrow> t | _ \<Rightarrow> [])"

text \<open>
  The values \<^verbatim>\<open>String\<close> converts: all but an object with an own \<^verbatim>\<open>toString\<close> property
  and the arrays that hold one, at any depth of nesting.
\<close>

fun stringable :: "json \<Rightarrow> bool" where
  "stringable (JArr xs) = list_all stringable xs"
| "stringable (JObj kvs) = (''toString'' \<notin> set (map fst kvs))"
| "stringable v = True"

definition coercible :: "json \<Rightarrow> bool" where
  "coercible m = (\<not> nullish m \<and> stringable (own_prop m ''content''))"

section \<open>Example inputs\<close>

text \<open>
  A conversation of three messages, the request body carrying it, an upstream that answers
  every request with the same response, and a Google response of two candidates, the first
  with the two text parts \<^verbatim>\<open>foo\<close> and \<^verbatim>\<open>bar\<close>.
\<close>

definition example_messages :: "json list" where
  "example_messages =
     [JObj [(''role'', JStr ''system''), (''content'', JStr ''Be brief.'')],
      JObj [(''role'', JStr ''user''), (''content'', JStr ''swap'')],
      JObj [(''role'', JStr ''assistant''), (''content'', JStr ''ok'')]]"

definition example_body :: json where
  "example_body = JObj [(''messages'', JArr example_messages)]"

definition stub_upstream :: "fetch_response \<Rightarrow> upstream" where
  "stub_upstream res = (\<lambda>req. Inr res)"

definition foobar_data :: json where
  "foobar_data =
     JObj [(''candidates'',
              JArr [JObj [(''content'',
                             JObj [(''parts'',
                                      JArr [JObj [(''text'', JStr ''foo'')],
                                            JObj [(''text'', JStr ''bar'')]])])],
                    JObj [(''content'',
                             JObj [(''parts'', JArr [JObj [(''text'', JStr ''two'')]])])]])]"

definition empty_text_data :: json where
  "empty_text_data =
     JObj [(''candidates'',
              JArr [JObj [(''content'', JObj [(''parts'', JArr [JObj [(''text'', JStr [])]])])]])]"

definition foobar_response :: fetch_response where
  "foobar_response = \<lparr>ok = True, status = 200, json_of = Inr foobar_data\<rparr>"

definition choice_response :: fetch_response where
  "choice_response =
     \<lparr>ok = True, status = 200,
      json_of = Inr (JObj [(''choices'',
                             JArr [JObj [(''message'',
                                            JObj [(''role'', JStr ''assistant''),
                                                  (''content'', JStr ''hi'')])]])])\<rparr>"

definition failing_response :: fetch_response where
  "failing_response =
     \<lparr>ok = False, status = 500, json_of = Inr (JObj [(''error'', JStr ''quota exceeded'')])\<rparr>"

section \<open>Properties\<close>

subsection \<open>Reading the request body\<close>

lemma body_prop: "get_prop (or_else b (JObj [])) k = Inr (own_prop b k)"
  by (cases b) (simp_all add: get_prop_def or_else_def nullish_def)

lemma startsWith_empty_key: "startsWith [] ''AIza'' = False"
  by (simp add: startsWith_def)

lemma chat_handler_array:
  assumes "own_prop req_body ''messages'' = JArr ms"
  shows "chat_handler cfg fetch req_body =
           (if GOOGLE_API_KEY cfg \<noteq> [] then respond (callGemini cfg fetch ms) ''google''
            else if OPENAI_API_KEY cfg \<noteq> [] then respond (callOpenAI cfg fetch ms) ''openai''
            else \<lparr>response = \<lparr>reply_status = 200, reply_body = fallback_reply\<rparr>,
                  fetched = [], logged = []\<rparr>)"
  using assms by (simp add: chat_handler_def body_prop startsWith_empty_key)

subsection \<open>Provider selection\<close>

text \<open>
  C1. For every pair of credential strings the chat route takes exactly one of its three
  branches: the Google adapter whenever the Google key is non-empty (also when both keys
  are), the OpenAI adapter when only the OpenAI key is non-empty, the static fallback
  when both are empty; and a chat request with a messages array is answered by that
  branch.
\<close>

theorem chat_route_total:
  "(chat_route cfg = Google \<longleftrightarrow> GOOGLE_API_KEY cfg \<noteq> []) \<and>
   (chat_route cfg = OpenAI \<longleftrightarrow> GOOGLE_API_KEY cfg = [] \<and> OPENAI_API_KEY cfg \<noteq> []) \<and>
   (chat_route cfg = NoProvider \<longleftrightarrow> GOOGLE_API_KEY cfg = [] \<and> OPENAI_API_KEY cfg = []) \<and>
   (own_prop req_body ''messages'' = JArr ms \<longrightarrow>
      chat_handler cfg fetch req_body =
        (case chat_route cfg of
           Google \<Rightarrow> respond (callGemini cfg fetch ms) ''google''
         | OpenAI \<Rightarrow> respond (callOpenAI cfg fetch ms) ''openai''
         | NoProvider \<Rightarrow>
             \<lparr>response = \<lparr>reply_status = 200, reply_body = fallback_reply\<rparr>,
              fetched = [], logged = []\<rparr>))"
  by (simp add: chat_route_def startsWith_empty_key chat_handler_array)

theorem chat_route_total_witness:
  "chat_route \<lparr>GOOGLE_API_KEY = ''AIzaK'', OPENAI_API_KEY = ''sk-1''\<rparr> = Google \<and>
   chat_route \<lparr>GOOGLE_API_KEY = [], OPENAI_API_KEY = ''sk-1''\<rparr> = OpenAI \<and>
   chat_route \<lparr>GOOGLE_API_KEY = [], OPENAI_API_KEY = []\<rparr> = NoProvider \<and>
   own_prop example_body ''messages'' = JArr example_messages \<and>
   chat_handler \<lparr>GOOGLE_API_KEY = [], OPENAI_API_KEY = []\<rparr> (stub_upstream failing_response) example_body =
     \<lparr>response = \<lparr>reply_status = 200, reply_body = fallback_reply\<rparr>, fetched = [], logged = []\<rparr>"
  using chat_route_total [of "\<lparr>GOOGLE_API_KEY = ''AIzaK'', OPENAI_API_KEY = ''sk-1''\<rparr>"]
    chat_route_total [of "\<lparr>GOOGLE_API_KEY = [], OPENAI_API_KEY = ''sk-1''\<rparr>"]
    chat_route_total [of "\<lparr>GOOGLE_API_KEY = [], OPENAI_API_KEY = []\<rparr>" example_body
      example_messages "stub_upstream failing_response"]
  by (simp add: example_body_def)

subsection \<open>Requests without a messages array\<close>

lemma chat_handler_not_array:
  assumes "\<not> isArray (own_prop req_body ''messages'')"
  shows "chat_handler cfg fetch req_body =
           \<lparr>response = \<lparr>reply_status = 400,
                        reply_body = JObj [(''error'', JStr ''Body must include messages: []'')]\<rparr>,
            fetched = [], logged = []\<rparr>"
  using assms
  by (cases "own_prop req_body ''messages''") (simp_all add: chat_handler_def body_prop isArray_def)

text \<open>
  C6. A chat request whose body has no \<^verbatim>\<open>messages\<close> field, or one that is not an
  array, is answered with status 400 and an error body, whatever the credentials are, and
  no request goes upstream.
\<close>

theorem chat_rejects_non_array:
  assumes "\<not> isArray (own_prop req_body ''messages'')"
  shows "reply_status (response (chat_handler cfg fetch req_body)) = 400 \<and>
         reply_body (response (chat_handler cfg fetch req_body)) =
           JObj [(''error'', JStr ''Body must include messages: []'')] \<and>
         fetched (chat_handler cfg fetch req_body) = []"
  using assms by (simp add: chat_handler_not_array)

theorem chat_rejects_non_array_witness:
  "\<not> isArray (own_prop (JObj [(''messages'', JStr ''not-an-array'')]) ''messages'') \<and>
   reply_status (response (chat_handler \<lparr>GOOGLE_API_KEY = ''AIzaK'', OPENAI_API_KEY = ''sk-1''\<rparr>
      (stub_upstream failing_response) (JObj [(''messages'', JStr ''not-an-array'')]))) = 400 \<and>
   fetched (chat_handler \<lparr>GOOGLE_API_KEY = ''AIzaK'', OPENAI_API_KEY = ''sk-1''\<rparr>
      (stub_upstream failing_response) (JObj [(''messages'', JStr ''not-an-array'')])) = [] \<and>
   \<not> isArray (own_prop JUndefined ''messages'') \<and>
   reply_status (response (chat_handler \<lparr>GOOGLE_API_KEY = [], OPENAI_API_KEY = ''sk-1''\<rparr>
      (stub_upstream failing_response) JUndefined)) = 400"
proof -
  have a: "\<not> isArray (own_prop (JObj [(''messages'', JStr ''not-an-array'')]) ''messages'')"
    by (simp add: isArray_def)
  have b: "\<not> isArray (own_prop JUndefined ''messages'')"
    by (simp add: isArray_def)
  show ?thesis
    using a b chat_rejects_non_array [OF a] chat_rejects_non_array [OF b] by simp
qed

subsection \<open>No provider configured\<close>

text \<open>
  C8. With both keys empty, a chat request with a messages array is answered with status
  200, the provider tag \<^verbatim>\<open>none\<close> and the fixed assistant message that asks for a
  provider key; no request goes upstream.
\<close>

theorem no_provider_fallback:
  assumes "GOOGLE_API_KEY cfg = []" and "OPENAI_API_KEY cfg = []"
    and "own_prop req_body ''messages'' = JArr ms"
  shows "chat_handler cfg fetch req_body =
           \<lparr>response =
              \<lparr>reply_status = 200,
               reply_body =
                 JObj [(''message'',
                          JObj [(''role'', JStr ''assistant''),
                                (''content'',
                                   JStr ''No AI provider configured. Set GOOGLE_API_KEY (Gemini) or OPENAI_API_KEY on the server.'')]),
                       (''provider'', JStr ''none'')]\<rparr>,
            fetched = [], logged = []\<rparr>"
  using assms by (simp add: chat_handler_array fallback_reply_def)

theorem no_provider_fallback_witness:
  "GOOGLE_API_KEY (load_config None (Some [])) = [] \<and>
   OPENAI_API_KEY (load_config None (Some [])) = [] \<and>
   own_prop example_body ''messages'' = JArr example_messages \<and>
   reply_status (response (chat_handler (load_config None (Some [])) (stub_upstream failing_response) example_body)) = 200 \<and>
   own_prop (reply_body (response (chat_handler (load_config None (Some [])) (stub_upstream failing_response) example_body)))
      ''provider'' = JStr ''none'' \<and>
   fetched (chat_handler (load_config None (Some [])) (stub_upstream failing_response) example_body) = []"
proof -
  have g: "GOOGLE_API_KEY (load_config None (Some [])) = []"
    by (simp add: load_config_def env_or_empty_def)
  have k: "OPENAI_API_KEY (load_config None (Some [])) = []"
    by (simp add: load_config_def env_or_empty_def)
  have m: "own_prop example_body ''messages'' = JArr example_messages"
    by (simp add: example_body_def)
  show ?thesis
    using g k m no_provider_fallback [OF g k m, of "stub_upstream failing_response"] by simp
qed

subsection \<open>The health route\<close>

lemma respond_provider:
  assumes "reply_status (response (respond r tag)) = 200"
  shows "own_prop (reply_body (response (respond r tag))) ''provider'' = JStr tag"
proof (cases r)
  case (Pair res reqs)
  with assms show ?thesis
    by (cases res) (simp_all add: respond_def catch_500_def)
qed

lemma health_provider:
  "own_prop (reply_body (response (health_handler cfg node))) ''provider'' =
     JStr (provider_tag (chat_route cfg))"
  by (simp add: health_handler_def chat_route_def provider_tag_def startsWith_empty_key)

lemma chat_provider:
  assumes "reply_status (response (chat_handler cfg fetch req_body)) = 200"
  shows "own_prop (reply_body (response (chat_handler cfg fetch req_body))) ''provider'' =
           JStr (provider_tag (chat_route cfg))"
proof (cases "own_prop req_body ''messages''")
  case (JArr ms)
  show ?thesis
  proof (cases "chat_route cfg")
    case Google
    then have g: "GOOGLE_API_KEY cfg \<noteq> []"
      by (simp add: chat_route_def startsWith_empty_key split: if_splits)
    with assms JArr have "reply_status (response (respond (callGemini cfg fetch ms) ''google'')) = 200"
      by (simp add: chat_handler_array)
    then show ?thesis
      using g JArr Google by (simp add: chat_handler_array respond_provider provider_tag_def)
  next
    case OpenAI
    then have g: "GOOGLE_API_KEY cfg = []" and k: "OPENAI_API_KEY cfg \<noteq> []"
      by (simp_all add: chat_route_def startsWith_empty_key split: if_splits)
    with assms JArr have "reply_status (response (respond (callOpenAI cfg fetch ms) ''openai'')) = 200"
      by (simp add: chat_handler_array)
    then show ?thesis
      using g k JArr OpenAI by (simp add: chat_handler_array respond_provider provider_tag_def)
  next
    case NoProvider
    then have "GOOGLE_API_KEY cfg = []" and "OPENAI_API_KEY cfg = []"
      by (simp_all add: chat_route_def startsWith_empty_key split: if_splits)
    then show ?thesis
      using JArr NoProvider by (simp add: chat_handler_array fallback_reply_def provider_tag_def)
  qed
qed (use assms in \<open>simp_all add: chat_handler_not_array isArray_def\<close>)

text \<open>
  C4. The chat route's test for Google, the key being truthy or starting with
  \<^verbatim>\<open>AIza\<close>, holds exactly when the key is non-empty. So the health route, which makes no
  upstream request, reports the provider the chat route selects, for every pair of keys,
  and every chat reply of status 200 carries the provider the health route reports.
\<close>

theorem health_agrees_with_chat:
  "(GOOGLE_API_KEY cfg \<noteq> [] \<or> startsWith (GOOGLE_API_KEY cfg) ''AIza'') = (GOOGLE_API_KEY cfg \<noteq> []) \<and>
   own_prop (reply_body (response (health_handler cfg node))) ''provider'' =
     JStr (provider_tag (chat_route cfg)) \<and>
   fetched (health_handler cfg node) = [] \<and>
   (reply_status (response (chat_handler cfg fetch req_body)) = 200 \<longrightarrow>
      own_prop (reply_body (response (chat_handler cfg fetch req_body))) ''provider'' =
      own_prop (reply_body (response (health_handler cfg node))) ''provider'')"
  by (simp add: startsWith_empty_key health_provider chat_provider) (simp add: health_handler_def)

theorem health_agrees_with_chat_witness:
  "reply_status (response (chat_handler \<lparr>GOOGLE_API_KEY = [], OPENAI_API_KEY = ''sk-1''\<rparr>
      (stub_upstream choice_response) example_body)) = 200 \<and>
   own_prop (reply_body (response (chat_handler \<lparr>GOOGLE_API_KEY = [], OPENAI_API_KEY = ''sk-1''\<rparr>
      (stub_upstream choice_response) example_body))) ''provider'' = JStr ''openai'' \<and>
   own_prop (reply_body (response (health_handler \<lparr>GOOGLE_API_KEY = [], OPENAI_API_KEY = ''sk-1''\<rparr>
      ''20.11.0''))) ''provider'' = JStr ''openai''"
proof -
  have ok: "reply_status (response (chat_handler \<lparr>GOOGLE_API_KEY = [], OPENAI_API_KEY = ''sk-1''\<rparr>
      (stub_upstream choice_response) example_body)) = 200"
    by (simp add: chat_handler_array example_body_def respond_def callOpenAI_def
        stub_upstream_def choice_response_def get_prop_def get_index0_def nullish_def)
  show ?thesis
    using ok health_agrees_with_chat [of "\<lparr>GOOGLE_API_KEY = [], OPENAI_API_KEY = ''sk-1''\<rparr>"
        "''20.11.0''" "stub_upstream choice_response" example_body]
    by (simp add: health_handler_def)
qed

subsection \<open>The OpenAI request\<close>

lemma fetched_respond: "fetched (respond r tag) = snd r"
proof (cases r)
  case (Pair res reqs)
  then show ?thesis
    by (cases res) (simp_all add: respond_def catch_500_def)
qed

text \<open>
  C5. When the chat route selects OpenAI, exactly one request goes upstream: a POST to the
  chat-completions endpoint whose \<^verbatim>\<open>messages\<close> are the caller's messages unchanged, in
  the same order, with the key as a bearer token, the model \<^verbatim>\<open>gpt-3.5-turbo\<close>,
  temperature 0.2 and at most 300 tokens.
\<close>

theorem openai_request_shape:
  assumes "GOOGLE_API_KEY cfg = []" and "OPENAI_API_KEY cfg \<noteq> []"
    and "own_prop req_body ''messages'' = JArr ms"
  shows "fetched (chat_handler cfg fetch req_body) = snd (callOpenAI cfg fetch ms) \<and>
         snd (callOpenAI cfg fetch ms) =
           [\<lparr>url = ''https://api.openai.com/v1/chat/completions'',
             http_method = ''POST'',
             headers = [(''Content-Type'', ''application/json''),
                        (''Authorization'', ''Bearer '' @ OPENAI_API_KEY cfg)],
             body = OpenAIBody \<lparr>model = ''gpt-3.5-turbo'', messages = ms,
                                temperature = 2 / 10, max_tokens = 300\<rparr>\<rparr>]"
  using assms
  by (simp add: chat_handler_array fetched_respond callOpenAI_def openai_request_def Let_def)

theorem openai_request_shape_witness:
  "GOOGLE_API_KEY \<lparr>GOOGLE_API_KEY = [], OPENAI_API_KEY = ''sk-1''\<rparr> = [] \<and>
   OPENAI_API_KEY \<lparr>GOOGLE_API_KEY = [], OPENAI_API_KEY = ''sk-1''\<rparr> \<noteq> [] \<and>
   own_prop example_body ''messages'' = JArr example_messages \<and>
   fetched (chat_handler \<lparr>GOOGLE_API_KEY = [], OPENAI_API_KEY = ''sk-1''\<rparr>
      (stub_upstream choice_response) example_body) =
     [\<lparr>url = ''https://api.openai.com/v1/chat/completions'',
       http_method = ''POST'',
       headers = [(''Content-Type'', ''application/json''), (''Authorization'', ''Bearer sk-1'')],
       body = OpenAIBody \<lparr>model = ''gpt-3.5-turbo'', messages = example_messages,
                          temperature = 1 / 5, max_tokens = 300\<rparr>\<rparr>]"
proof -
  have m: "own_prop example_body ''messages'' = JArr example_messages"
    by (simp add: example_body_def)
  show ?thesis
    using m openai_request_shape [of "\<lparr>GOOGLE_API_KEY = [], OPENAI_API_KEY = ''sk-1''\<rparr>"
        example_body example_messages "stub_upstream choice_response"]
    by simp
qed

subsection \<open>The intent route\<close>

text \<open>
  C9, as the code has it. The intent route never throws. It answers 400 with an error body
  exactly when the body's \<^verbatim>\<open>intent\<close> is falsy: missing, \<^verbatim>\<open>null\<close>, \<^verbatim>\<open>false\<close>,
  \<^verbatim>\<open>0\<close> or the empty string. Otherwise, so for every object and every array, it answers
  200 with \<^verbatim>\<open>status: received\<close> and the intent as supplied.
\<close>

theorem intent_handler_cases:
  "\<exists>r. intent_handler req_body = Inr r \<and>
       (reply_status r = 400 \<longleftrightarrow> \<not> truthy (own_prop req_body ''intent'')) \<and>
       (\<not> truthy (own_prop req_body ''intent'') \<longrightarrow>
          r = \<lparr>reply_status = 400, reply_body = JObj [(''error'', JStr ''No intent provided.'')]\<rparr>) \<and>
       (truthy (own_prop req_body ''intent'') \<longrightarrow>
          r = \<lparr>reply_status = 200,
               reply_body = JObj [(''status'', JStr ''received''),
                                  (''intent'', own_prop req_body ''intent'')]\<rparr>)"
  by (simp add: intent_handler_def body_prop)

theorem intent_handler_cases_witness:
  "truthy (own_prop (JObj [(''intent'', JObj [(''type'', JStr ''swap'')])]) ''intent'') \<and>
   intent_handler (JObj [(''intent'', JObj [(''type'', JStr ''swap'')])]) =
     Inr \<lparr>reply_status = 200,
          reply_body = JObj [(''status'', JStr ''received''),
                             (''intent'', JObj [(''type'', JStr ''swap'')])]\<rparr> \<and>
   \<not> truthy (own_prop (JObj []) ''intent'') \<and>
   intent_handler (JObj []) =
     Inr \<lparr>reply_status = 400, reply_body = JObj [(''error'', JStr ''No intent provided.'')]\<rparr>"
  using intent_handler_cases [of "JObj [(''intent'', JObj [(''type'', JStr ''swap'')])]"]
    intent_handler_cases [of "JObj []"]
  by auto

text \<open>
  C9 with ``exactly when the field is missing'' does not hold: a body whose \<^verbatim>\<open>intent\<close>
  field is present with the value \<^verbatim>\<open>0\<close> is answered 400.
\<close>

theorem intent_present_rejected_counterexample:
  "map_of [(''intent'', JNum ''0'')] ''intent'' = Some (JNum ''0'') \<and>
   intent_handler (JObj [(''intent'', JNum ''0'')]) =
     Inr \<lparr>reply_status = 400, reply_body = JObj [(''error'', JStr ''No intent provided.'')]\<rparr>"
  by (simp add: intent_handler_def body_prop)

subsection \<open>Upstream failures\<close>

lemma callGemini_not_ok:
  assumes "gemini_contents ms = Inr cs" and "fetch (gemini_request cfg cs) = Inr res"
    and "\<not> ok res"
  shows "callGemini cfg fetch ms =
           (Inl (Error (''Gemini HTTP '' @ show_nat (status res))), [gemini_request cfg cs])"
  using assms by (simp add: callGemini_def Let_def)

lemma callGemini_raised:
  assumes "gemini_contents ms = Inl e"
  shows "callGemini cfg fetch ms = (Inl e, [])"
  using assms by (simp add: callGemini_def)

lemma callOpenAI_not_ok:
  assumes "fetch (openai_request cfg ms) = Inr res" and "\<not> ok res"
  shows "callOpenAI cfg fetch ms =
           (Inl (Error (''OpenAI HTTP '' @ show_nat (status res))), [openai_request cfg ms])"
  using assms by (simp add: callOpenAI_def Let_def)

lemma respond_raised:
  "respond (Inl e, reqs) tag =
     \<lparr>response = \<lparr>reply_status = 500,
                  reply_body = JObj [(''error'', JStr ''Failed to process chat request.'')]\<rparr>,
      fetched = reqs, logged = [e]\<rparr>"
  by (simp add: respond_def catch_500_def)

text \<open>
  C7. Let the chat route select a provider and the upstream answer every request with a
  response that is not ok. Then the adapter throws an error whose message carries the
  status code of the response to its request, the handler logs it, and the caller gets
  status 500 with the fixed error body, which holds nothing of the upstream's answer and
  is not the fallback reply.
\<close>

theorem upstream_failure_is_500:
  assumes msgs: "own_prop req_body ''messages'' = JArr ms"
    and sel: "chat_route cfg \<noteq> NoProvider"
    and up: "\<forall>q. fetch q = Inr (resp q) \<and> \<not> ok (resp q)"
  shows "response (chat_handler cfg fetch req_body) =
           \<lparr>reply_status = 500,
            reply_body = JObj [(''error'', JStr ''Failed to process chat request.'')]\<rparr> \<and>
         reply_body (response (chat_handler cfg fetch req_body)) \<noteq> fallback_reply \<and>
         (chat_route cfg = OpenAI \<longrightarrow>
            fst (callOpenAI cfg fetch ms) =
              Inl (Error (''OpenAI HTTP '' @ show_nat (status (resp (openai_request cfg ms))))) \<and>
            logged (chat_handler cfg fetch req_body) =
              [Error (''OpenAI HTTP '' @ show_nat (status (resp (openai_request cfg ms))))]) \<and>
         (chat_route cfg = Google \<longrightarrow>
            (\<forall>cs. gemini_contents ms = Inr cs \<longrightarrow>
               fst (callGemini cfg fetch ms) =
                 Inl (Error (''Gemini HTTP '' @ show_nat (status (resp (gemini_request cfg cs))))) \<and>
               logged (chat_handler cfg fetch req_body) =
                 [Error (''Gemini HTTP '' @ show_nat (status (resp (gemini_request cfg cs))))]))"
proof (cases "chat_route cfg")
  case Google
  then have g: "GOOGLE_API_KEY cfg \<noteq> []"
    by (simp add: chat_route_def startsWith_empty_key split: if_splits)
  have h: "chat_handler cfg fetch req_body = respond (callGemini cfg fetch ms) ''google''"
    using msgs g by (simp add: chat_handler_array)
  show ?thesis
  proof (cases "gemini_contents ms")
    case (Inl e)
    then show ?thesis
      using Google h by (simp add: callGemini_raised respond_raised fallback_reply_def)
  next
    case (Inr cs)
    have "fetch (gemini_request cfg cs) = Inr (resp (gemini_request cfg cs))"
      and "\<not> ok (resp (gemini_request cfg cs))"
      using up by simp_all
    then have "callGemini cfg fetch ms =
        (Inl (Error (''Gemini HTTP '' @ show_nat (status (resp (gemini_request cfg cs))))),
         [gemini_request cfg cs])"
      using Inr by (simp add: callGemini_not_ok)
    then show ?thesis
      using Google h Inr by (simp add: respond_raised fallback_reply_def)
  qed
next
  case OpenAI
  then have g: "GOOGLE_API_KEY cfg = []" and k: "OPENAI_API_KEY cfg \<noteq> []"
    by (simp_all add: chat_route_def startsWith_empty_key split: if_splits)
  have h: "chat_handler cfg fetch req_body = respond (callOpenAI cfg fetch ms) ''openai''"
    using msgs g k by (simp add: chat_handler_array)
  have "fetch (openai_request cfg ms) = Inr (resp (openai_request cfg ms))"
    and "\<not> ok (resp (openai_request cfg ms))"
    using up by simp_all
  then have "callOpenAI cfg fetch ms =
      (Inl (Error (''OpenAI HTTP '' @ show_nat (status (resp (openai_request cfg ms))))),
       [openai_request cfg ms])"
    by (rule callOpenAI_not_ok)
  then show ?thesis
    using OpenAI h by (simp add: respond_raised fallback_reply_def)
next
  case NoProvider
  with sel show ?thesis by simp
qed

theorem upstream_failure_is_500_witness:
  "own_prop example_body ''messages'' = JArr example_messages \<and>
   chat_route \<lparr>GOOGLE_API_KEY = ''AIzaK'', OPENAI_API_KEY = []\<rparr> = Google \<and>
   \<not> ok failing_response \<and>
   response (chat_handler \<lparr>GOOGLE_API_KEY = ''AIzaK'', OPENAI_API_KEY = []\<rparr>
      (stub_upstream failing_response) example_body) =
     \<lparr>reply_status = 500,
      reply_body = JObj [(''error'', JStr ''Failed to process chat request.'')]\<rparr> \<and>
   logged (chat_handler \<lparr>GOOGLE_API_KEY = ''AIzaK'', OPENAI_API_KEY = []\<rparr>
      (stub_upstream failing_response) example_body) = [Error ''Gemini HTTP 500'']"
proof -
  have m: "own_prop example_body ''messages'' = JArr example_messages"
    by (simp add: example_body_def)
  have r: "chat_route \<lparr>GOOGLE_API_KEY = ''AIzaK'', OPENAI_API_KEY = []\<rparr> = Google"
    by (simp add: chat_route_def)
  have s: "chat_route \<lparr>GOOGLE_API_KEY = ''AIzaK'', OPENAI_API_KEY = []\<rparr> \<noteq> NoProvider"
    by (simp add: r)
  have b: "\<not> ok failing_response"
    by (simp add: failing_response_def)
  have u: "\<forall>q. stub_upstream failing_response q = Inr ((\<lambda>q. failing_response) q) \<and>
      \<not> ok ((\<lambda>q. failing_response) q)"
    by (simp add: stub_upstream_def b)
  have c: "\<exists>cs. gemini_contents example_messages = Inr cs"
    by (simp add: gemini_contents_def gemini_content_of_def example_messages_def
        get_prop_def nullish_def or_else_def)
  have n: "show_nat (status failing_response) = ''500''"
    by (simp add: failing_response_def show_nat.simps)
  show ?thesis
    using m r b c n upstream_failure_is_500 [OF m s u] by auto
qed

subsection \<open>The Google translation\<close>

lemma seq_sum_map_Inr:
  assumes "\<And>x. x \<in> set xs \<Longrightarrow> f x = Inr (g x)"
  shows "seq_sum (map f xs) = Inr (map g xs)"
  using assms by (induction xs) simp_all

lemma seq_sum_ok_iff:
  "(\<exists>ys. seq_sum (map f xs) = Inr ys) \<longleftrightarrow> (\<forall>x\<in>set xs. \<exists>y. f x = Inr y)"
  by (induction xs) (auto split: sum.splits)

lemma seq_sum_nth:
  assumes "seq_sum rs = Inr ys"
  shows "length ys = length rs \<and> (\<forall>i<length rs. rs ! i = Inr (ys ! i))"
  using assms
proof (induction rs arbitrary: ys)
  case Nil
  then show ?case by simp
next
  case (Cons r rs)
  then obtain x xs where r: "r = Inr x" and xs: "seq_sum rs = Inr xs" and ys: "ys = x # xs"
    by (auto split: sum.splits)
  from Cons.IH [OF xs] show ?case
    by (auto simp: r ys nth_Cons split: nat.splits)
qed

lemma gemini_content_of_ChatMessage:
  assumes "is_ChatMessage m"
  shows "\<exists>t. own_prop m ''content'' = JStr t \<and>
             gemini_content_of m =
               Inr \<lparr>role = (if own_prop m ''role'' = JStr ''assistant'' then ''model'' else ''user''),
                    parts = [\<lparr>part_text = t\<rparr>]\<rparr>"
proof -
  from assms obtain kvs where m: "m = JObj kvs"
    by (auto simp: is_ChatMessage_def split: json.splits)
  from assms obtain t where t: "own_prop m ''content'' = JStr t"
    by (auto simp: is_ChatMessage_def split: json.splits)
  have "to_String (or_else (JStr t) (JStr [])) = Inr t"
    by (simp add: or_else_def)
  with t show ?thesis
    by (simp add: gemini_content_of_def get_prop_def nullish_def m)
qed

text \<open>
  C2. For every sequence of chat messages, the \<^verbatim>\<open>contents\<close> array that \<^verbatim>\<open>callGemini\<close>
  builds and sends has the length and the order of the messages; its element at each
  position has the role \<^verbatim>\<open>model\<close> when the message's role is \<^verbatim>\<open>assistant\<close> and
  \<^verbatim>\<open>user\<close> for any other role, and a single part whose text is the message's content.
\<close>

theorem gemini_translation:
  assumes "list_all is_ChatMessage ms"
  shows "\<exists>cs. gemini_contents ms = Inr cs \<and>
              snd (callGemini cfg fetch ms) = [gemini_request cfg cs] \<and>
              body (gemini_request cfg cs) = GeminiBody cs \<and>
              length cs = length ms \<and>
              (\<forall>i<length ms.
                 role (cs ! i) =
                   (if own_prop (ms ! i) ''role'' = JStr ''assistant'' then ''model'' else ''user'') \<and>
                 (\<exists>t. own_prop (ms ! i) ''content'' = JStr t \<and> parts (cs ! i) = [\<lparr>part_text = t\<rparr>]))"
proof -
  have "\<forall>m\<in>set ms. \<exists>c. gemini_content_of m = Inr c"
    using assms gemini_content_of_ChatMessage by (fastforce simp: list_all_iff)
  then obtain cs where cs: "gemini_contents ms = Inr cs"
    unfolding gemini_contents_def using seq_sum_ok_iff [of gemini_content_of ms] by blast
  then have len: "length cs = length ms"
    and nth: "\<forall>i<length ms. gemini_content_of (ms ! i) = Inr (cs ! i)"
    using seq_sum_nth [of "map gemini_content_of ms" cs] by (simp_all add: gemini_contents_def)
  have each: "role (cs ! i) =
        (if own_prop (ms ! i) ''role'' = JStr ''assistant'' then ''model'' else ''user'') \<and>
      (\<exists>t. own_prop (ms ! i) ''content'' = JStr t \<and> parts (cs ! i) = [\<lparr>part_text = t\<rparr>])"
    if i: "i < length ms" for i
  proof -
    from i assms have "is_ChatMessage (ms ! i)"
      by (simp add: list_all_length)
    from gemini_content_of_ChatMessage [OF this] nth i show ?thesis
      by auto
  qed
  have sent: "snd (callGemini cfg fetch ms) = [gemini_request cfg cs]"
    using cs by (simp add: callGemini_def Let_def)
  show ?thesis
    using cs len each sent by (auto simp: gemini_request_def)
qed

theorem gemini_translation_witness:
  "list_all is_ChatMessage example_messages \<and>
   gemini_contents example_messages =
     Inr [\<lparr>role = ''user'', parts = [\<lparr>part_text = ''Be brief.''\<rparr>]\<rparr>,
          \<lparr>role = ''user'', parts = [\<lparr>part_text = ''swap''\<rparr>]\<rparr>,
          \<lparr>role = ''model'', parts = [\<lparr>part_text = ''ok''\<rparr>]\<rparr>]"
proof -
  have a: "list_all is_ChatMessage example_messages"
    by (simp add: example_messages_def is_ChatMessage_def)
  have b: "gemini_contents example_messages =
     Inr [\<lparr>role = ''user'', parts = [\<lparr>part_text = ''Be brief.''\<rparr>]\<rparr>,
          \<lparr>role = ''user'', parts = [\<lparr>part_text = ''swap''\<rparr>]\<rparr>,
          \<lparr>role = ''model'', parts = [\<lparr>part_text = ''ok''\<rparr>]\<rparr>]"
    by (simp add: gemini_contents_def gemini_content_of_def example_messages_def
        get_prop_def nullish_def or_else_def)
  show ?thesis
    using a b gemini_translation [OF a] by simp
qed

subsection \<open>Content that is not a string\<close>

lemma to_String_stringable: "(\<exists>s. to_String v = Inr s) \<longleftrightarrow> stringable v"
proof (induction v)
  case (JArr xs)
  have "(\<exists>s. to_String (JArr xs) = Inr s) \<longleftrightarrow>
        (\<exists>ss. seq_sum (map (\<lambda>x. if x = JUndefined \<or> x = JNull then Inr [] else to_String x) xs) = Inr ss)"
    by (auto split: sum.splits)
  also have "\<dots> \<longleftrightarrow> (\<forall>x\<in>set xs. \<exists>y. (if x = JUndefined \<or> x = JNull then Inr [] else to_String x) = Inr y)"
    by (rule seq_sum_ok_iff)
  also have "\<dots> \<longleftrightarrow> (\<forall>x\<in>set xs. stringable x)"
    using JArr.IH by (intro ball_cong refl) auto
  finally show ?case
    by (simp add: list_all_iff)
qed simp_all

lemma gemini_content_of_coercible:
  "(\<exists>c. gemini_content_of m = Inr c) \<longleftrightarrow> coercible m"
proof (cases "nullish m")
  case True
  then show ?thesis
    by (simp add: gemini_content_of_def get_prop_def coercible_def)
next
  case False
  have "stringable (or_else (own_prop m ''content'') (JStr [])) \<longleftrightarrow> stringable (own_prop m ''content'')"
    by (cases "own_prop m ''content''") (simp_all add: or_else_def)
  then have "(\<exists>s. to_String (or_else (own_prop m ''content'') (JStr [])) = Inr s) \<longleftrightarrow>
      stringable (own_prop m ''content'')"
    by (simp add: to_String_stringable)
  then show ?thesis
    using False by (auto simp: gemini_content_of_def get_prop_def coercible_def split: sum.splits)
qed

lemma gemini_content_of_text:
  assumes "gemini_content_of m = Inr c"
  shows "\<exists>t. parts c = [\<lparr>part_text = t\<rparr>] \<and>
             to_String (or_else (own_prop m ''content'') (JStr [])) = Inr t \<and>
             (\<not> truthy (own_prop m ''content'') \<longrightarrow> t = []) \<and>
             (\<forall>s. own_prop m ''content'' = JStr s \<longrightarrow> t = s) \<and>
             (\<forall>n. own_prop m ''content'' = JNum n \<and> n \<noteq> ''0'' \<and> n \<noteq> ''NaN'' \<longrightarrow> t = n)"
  using assms
  by (auto simp: gemini_content_of_def get_prop_def or_else_def split: sum.splits if_splits)

text \<open>
  C10, as the code has it. The translation throws exactly when some message is \<^verbatim>\<open>null\<close>
  or has a content that \<^verbatim>\<open>String\<close> cannot convert: an object with an own \<^verbatim>\<open>toString\<close>
  property, or an array holding one. For all other messages, whether the content is absent,
  \<^verbatim>\<open>null\<close>, empty or not a string, every element produced has one part whose text is
  the string \<^verbatim>\<open>String(m.content || '')\<close>: the empty string for every falsy content, the
  content itself when it is a string, the number's text when it is a number that is not
  falsy.
\<close>

theorem gemini_translation_total:
  "((\<exists>cs. gemini_contents ms = Inr cs) \<longleftrightarrow> list_all coercible ms) \<and>
   (\<forall>cs. gemini_contents ms = Inr cs \<longrightarrow>
      length cs = length ms \<and>
      (\<forall>i<length ms. \<exists>t.
         parts (cs ! i) = [\<lparr>part_text = t\<rparr>] \<and>
         to_String (or_else (own_prop (ms ! i) ''content'') (JStr [])) = Inr t \<and>
         (\<not> truthy (own_prop (ms ! i) ''content'') \<longrightarrow> t = []) \<and>
         (\<forall>s. own_prop (ms ! i) ''content'' = JStr s \<longrightarrow> t = s) \<and>
         (\<forall>n. own_prop (ms ! i) ''content'' = JNum n \<and> n \<noteq> ''0'' \<and> n \<noteq> ''NaN'' \<longrightarrow> t = n)))"
proof -
  have iff: "(\<exists>cs. gemini_contents ms = Inr cs) \<longleftrightarrow> list_all coercible ms"
    unfolding gemini_contents_def
    by (simp add: seq_sum_ok_iff gemini_content_of_coercible list_all_iff)
  have each: "length cs = length ms \<and>
      (\<forall>i<length ms. \<exists>t.
         parts (cs ! i) = [\<lparr>part_text = t\<rparr>] \<and>
         to_String (or_else (own_prop (ms ! i) ''content'') (JStr [])) = Inr t \<and>
         (\<not> truthy (own_prop (ms ! i) ''content'') \<longrightarrow> t = []) \<and>
         (\<forall>s. own_prop (ms ! i) ''content'' = JStr s \<longrightarrow> t = s) \<and>
         (\<forall>n. own_prop (ms ! i) ''content'' = JNum n \<and> n \<noteq> ''0'' \<and> n \<noteq> ''NaN'' \<longrightarrow> t = n))"
    if cs: "gemini_contents ms = Inr cs" for cs
  proof -
    from cs have len: "length cs = length ms"
      and nth: "\<forall>i<length ms. gemini_content_of (ms ! i) = Inr (cs ! i)"
      using seq_sum_nth [of "map gemini_content_of ms" cs] by (simp_all add: gemini_contents_def)
    show ?thesis
      using len nth gemini_content_of_text by blast
  qed
  show ?thesis
    using iff each by blast
qed

theorem gemini_translation_total_witness:
  "list_all coercible
     [JObj [(''role'', JStr ''user'')],
      JObj [(''role'', JStr ''user''), (''content'', JNull)],
      JObj [(''role'', JStr ''assistant''), (''content'', JNum ''42'')],
      JObj [(''role'', JStr ''user''), (''content'', JNum ''1e+21'')],
      JObj [(''role'', JStr ''user''), (''content'', JNum ''0'')],
      JObj [(''role'', JStr ''user''), (''content'', JArr [JStr ''a'', JNull, JBool True])]] \<and>
   gemini_contents
     [JObj [(''role'', JStr ''user'')],
      JObj [(''role'', JStr ''user''), (''content'', JNull)],
      JObj [(''role'', JStr ''assistant''), (''content'', JNum ''42'')],
      JObj [(''role'', JStr ''user''), (''content'', JNum ''1e+21'')],
      JObj [(''role'', JStr ''user''), (''content'', JNum ''0'')],
      JObj [(''role'', JStr ''user''), (''content'', JArr [JStr ''a'', JNull, JBool True])]] =
     Inr [\<lparr>role = ''user'', parts = [\<lparr>part_text = []\<rparr>]\<rparr>,
          \<lparr>role = ''user'', parts = [\<lparr>part_text = []\<rparr>]\<rparr>,
          \<lparr>role = ''model'', parts = [\<lparr>part_text = ''42''\<rparr>]\<rparr>,
          \<lparr>role = ''user'', parts = [\<lparr>part_text = ''1e+21''\<rparr>]\<rparr>,
          \<lparr>role = ''user'', parts = [\<lparr>part_text = []\<rparr>]\<rparr>,
          \<lparr>role = ''user'', parts = [\<lparr>part_text = ''a,,true''\<rparr>]\<rparr>]"
proof -
  let ?ms = "[JObj [(''role'', JStr ''user'')],
      JObj [(''role'', JStr ''user''), (''content'', JNull)],
      JObj [(''role'', JStr ''assistant''), (''content'', JNum ''42'')],
      JObj [(''role'', JStr ''user''), (''content'', JNum ''1e+21'')],
      JObj [(''role'', JStr ''user''), (''content'', JNum ''0'')],
      JObj [(''role'', JStr ''user''), (''content'', JArr [JStr ''a'', JNull, JBool True])]]"
  have a: "list_all coercible ?ms"
    by (simp add: coercible_def nullish_def)
  have b: "gemini_contents ?ms =
     Inr [\<lparr>role = ''user'', parts = [\<lparr>part_text = []\<rparr>]\<rparr>,
          \<lparr>role = ''user'', parts = [\<lparr>part_text = []\<rparr>]\<rparr>,
          \<lparr>role = ''model'', parts = [\<lparr>part_text = ''42''\<rparr>]\<rparr>,
          \<lparr>role = ''user'', parts = [\<lparr>part_text = ''1e+21''\<rparr>]\<rparr>,
          \<lparr>role = ''user'', parts = [\<lparr>part_text = []\<rparr>]\<rparr>,
          \<lparr>role = ''user'', parts = [\<lparr>part_text = ''a,,true''\<rparr>]\<rparr>]"
    by (simp add: gemini_contents_def gemini_content_of_def get_prop_def nullish_def
        or_else_def)
  show ?thesis
    using a b gemini_translation_total [of ?ms] by simp
qed

text \<open>
  C10 for every content does not hold: a message whose content is the object
  \<^verbatim>\<open>{"toString": 1}\<close> makes the translation throw a \<^verbatim>\<open>TypeError\<close>.
\<close>

theorem gemini_translation_throws_counterexample:
  "gemini_contents [JObj [(''role'', JStr ''user''),
                          (''content'', JObj [(''toString'', JNum ''1'')])]] = Inl TypeError"
  by (simp add: gemini_contents_def gemini_content_of_def get_prop_def nullish_def or_else_def)

subsection \<open>The Google reply\<close>

lemma intercalate_empty: "intercalate [] ss = concat ss"
  by (induction "[] :: string" ss rule: intercalate.induct) simp_all

lemma is_part_text:
  assumes "is_part p"
  shows "get_prop p ''text'' = Inr (own_prop p ''text'') \<and>
         (if nullish (own_prop p ''text'') then Inr [] else to_String (own_prop p ''text'')) =
           Inr (text_of p)"
  using assms
  by (auto simp: is_part_def text_of_def get_prop_def nullish_def split: json.splits)

lemma map_text_join_parts:
  assumes "list_all is_part ps"
  shows "map_text_join (JArr ps) = Inr (concat (map text_of ps))"
proof -
  have a: "seq_sum (map (\<lambda>p. get_prop p ''text'') ps) = Inr (map (\<lambda>p. own_prop p ''text'') ps)"
    using assms by (intro seq_sum_map_Inr) (simp add: list_all_iff is_part_text)
  have "seq_sum (map ((\<lambda>x. if nullish x then Inr [] else to_String x) \<circ> (\<lambda>p. own_prop p ''text'')) ps) =
      Inr (map text_of ps)"
    using assms by (intro seq_sum_map_Inr) (simp add: list_all_iff is_part_text)
  then have b: "js_join [] (map (\<lambda>p. own_prop p ''text'') ps) = Inr (concat (map text_of ps))"
    by (simp add: js_join_def intercalate_empty)
  show ?thesis
    by (simp add: map_text_join_def a b)
qed

lemma callGemini_ok:
  assumes "gemini_contents ms = Inr cs" and "fetch (gemini_request cfg cs) = Inr res"
    and "ok res" and "json_of res = Inr data"
  shows "fst (callGemini cfg fetch ms) =
           (case gemini_text data of
              Inl e \<Rightarrow> Inl e
            | Inr t \<Rightarrow> Inr (JObj [(''role'', JStr ''assistant''), (''content'', JStr t)]))"
  using assms by (simp add: callGemini_def Let_def)

text \<open>Where the chain of line 58 ends, told from the response itself.\<close>

lemma own_prop_nullish: "nullish v \<Longrightarrow> own_prop v k = JUndefined"
  by (auto simp: nullish_def)

lemma candidate_parts_no_candidate:
  assumes "nullish data \<or> nullish (own_prop data ''candidates'') \<or>
           own_prop data ''candidates'' = JArr []"
  shows "candidate_parts data = None"
  using assms
  by (auto simp: candidate_parts_def opt_prop_def opt_index0_def nullish_def)

lemma candidate_parts_first:
  assumes "own_prop data ''candidates'' = JArr (c # cands)"
  shows "candidate_parts data =
           (if nullish c \<or> nullish (own_prop c ''content'') \<or>
               nullish (own_prop (own_prop c ''content'') ''parts'')
            then None
            else Some (own_prop (own_prop c ''content'') ''parts''))"
proof -
  have "\<not> nullish data"
    using assms own_prop_nullish [of data "''candidates''"] by auto
  then show ?thesis
    using assms by (simp add: candidate_parts_def opt_prop_def opt_index0_def) (simp add: nullish_def)
qed

text \<open>
  C3, as the code has it. Let the Google upstream answer with a response that is ok and
  whose body parses. When the body is \<^verbatim>\<open>null\<close>, has no \<^verbatim>\<open>candidates\<close> or an empty
  array of them, or when the first of its candidates is \<^verbatim>\<open>null\<close>, has no \<^verbatim>\<open>content\<close>
  or a content with no \<^verbatim>\<open>parts\<close>, the reply's content is \<^verbatim>\<open>(no content)\<close>. When the
  first candidate's content has an array of parts, the reply's content is the
  concatenation, in order, of the texts of those parts if that is non-empty, and
  \<^verbatim>\<open>(no content)\<close> if it is empty. The candidates after the first play no part.
\<close>

theorem gemini_reply_content:
  assumes "gemini_contents ms = Inr cs" and "fetch (gemini_request cfg cs) = Inr res"
    and "ok res" and "json_of res = Inr data"
  shows "(nullish data \<or> nullish (own_prop data ''candidates'') \<or>
          own_prop data ''candidates'' = JArr [] \<longrightarrow>
            fst (callGemini cfg fetch ms) =
              Inr (JObj [(''role'', JStr ''assistant''), (''content'', JStr ''(no content)'')])) \<and>
         (\<forall>c cands.
            own_prop data ''candidates'' = JArr (c # cands) \<and>
            (nullish c \<or> nullish (own_prop c ''content'') \<or>
             nullish (own_prop (own_prop c ''content'') ''parts'')) \<longrightarrow>
            fst (callGemini cfg fetch ms) =
              Inr (JObj [(''role'', JStr ''assistant''), (''content'', JStr ''(no content)'')])) \<and>
         (\<forall>c cands ps.
            own_prop data ''candidates'' = JArr (c # cands) \<and>
            own_prop (own_prop c ''content'') ''parts'' = JArr ps \<and> list_all is_part ps \<longrightarrow>
            fst (callGemini cfg fetch ms) =
              Inr (JObj [(''role'', JStr ''assistant''),
                         (''content'',
                            JStr (if concat (map text_of ps) \<noteq> [] then concat (map text_of ps)
                                  else ''(no content)''))]))"
proof -
  note reply = callGemini_ok [where fetch = fetch and cfg = cfg, OF assms]
  have none: "fst (callGemini cfg fetch ms) =
      Inr (JObj [(''role'', JStr ''assistant''), (''content'', JStr ''(no content)'')])"
    if "candidate_parts data = None"
    using that by (simp add: reply gemini_text_def)
  have a: "fst (callGemini cfg fetch ms) =
      Inr (JObj [(''role'', JStr ''assistant''), (''content'', JStr ''(no content)'')])"
    if "nullish data \<or> nullish (own_prop data ''candidates'') \<or>
        own_prop data ''candidates'' = JArr []"
    using that by (intro none candidate_parts_no_candidate)
  have b: "fst (callGemini cfg fetch ms) =
      Inr (JObj [(''role'', JStr ''assistant''), (''content'', JStr ''(no content)'')])"
    if "own_prop data ''candidates'' = JArr (c # cands)"
      and "nullish c \<or> nullish (own_prop c ''content'') \<or>
           nullish (own_prop (own_prop c ''content'') ''parts'')"
    for c cands
    using that by (intro none) (simp add: candidate_parts_first)
  have c: "fst (callGemini cfg fetch ms) =
      Inr (JObj [(''role'', JStr ''assistant''),
                 (''content'',
                    JStr (if concat (map text_of ps) \<noteq> [] then concat (map text_of ps)
                          else ''(no content)''))])"
    if first: "own_prop data ''candidates'' = JArr (c # cands)"
      and ps: "own_prop (own_prop c ''content'') ''parts'' = JArr ps"
      and texts: "list_all is_part ps"
    for c cands ps
  proof -
    have "\<not> nullish (own_prop c ''content'')"
      using ps own_prop_nullish [of "own_prop c ''content''" "''parts''"] by auto
    moreover from this have "\<not> nullish c"
      using own_prop_nullish [of c "''content''"] by (auto simp: nullish_def)
    ultimately have "candidate_parts data = Some (JArr ps)"
      using first ps by (simp add: candidate_parts_first) (simp add: nullish_def)
    then show ?thesis
      using texts by (simp add: reply gemini_text_def map_text_join_parts)
  qed
  show ?thesis
    using a b c by blast
qed

theorem gemini_reply_content_witness:
  "gemini_contents example_messages =
     Inr [\<lparr>role = ''user'', parts = [\<lparr>part_text = ''Be brief.''\<rparr>]\<rparr>,
          \<lparr>role = ''user'', parts = [\<lparr>part_text = ''swap''\<rparr>]\<rparr>,
          \<lparr>role = ''model'', parts = [\<lparr>part_text = ''ok''\<rparr>]\<rparr>] \<and>
   ok foobar_response \<and> json_of foobar_response = Inr foobar_data \<and>
   own_prop foobar_data ''candidates'' =
     JArr [JObj [(''content'',
                    JObj [(''parts'', JArr [JObj [(''text'', JStr ''foo'')],
                                            JObj [(''text'', JStr ''bar'')]])])],
           JObj [(''content'', JObj [(''parts'', JArr [JObj [(''text'', JStr ''two'')]])])]] \<and>
   list_all is_part [JObj [(''text'', JStr ''foo'')], JObj [(''text'', JStr ''bar'')]] \<and>
   fst (callGemini \<lparr>GOOGLE_API_KEY = ''AIzaK'', OPENAI_API_KEY = []\<rparr>
          (stub_upstream foobar_response) example_messages) =
     Inr (JObj [(''role'', JStr ''assistant''), (''content'', JStr ''foobar'')])"
proof -
  let ?cs = "[\<lparr>role = ''user'', parts = [\<lparr>part_text = ''Be brief.''\<rparr>]\<rparr>,
          \<lparr>role = ''user'', parts = [\<lparr>part_text = ''swap''\<rparr>]\<rparr>,
          \<lparr>role = ''model'', parts = [\<lparr>part_text = ''ok''\<rparr>]\<rparr>]"
  let ?c = "JObj [(''content'',
                    JObj [(''parts'', JArr [JObj [(''text'', JStr ''foo'')],
                                            JObj [(''text'', JStr ''bar'')]])])]"
  let ?rest = "[JObj [(''content'', JObj [(''parts'', JArr [JObj [(''text'', JStr ''two'')]])])]]"
  let ?ps = "[JObj [(''text'', JStr ''foo'')], JObj [(''text'', JStr ''bar'')]]"
  have a: "gemini_contents example_messages = Inr ?cs"
    by (simp add: gemini_contents_def gemini_content_of_def example_messages_def
        get_prop_def nullish_def or_else_def)
  have b: "stub_upstream foobar_response
      (gemini_request \<lparr>GOOGLE_API_KEY = ''AIzaK'', OPENAI_API_KEY = []\<rparr> ?cs) = Inr foobar_response"
    by (simp add: stub_upstream_def)
  have c: "ok foobar_response"
    by (simp add: foobar_response_def)
  have d: "json_of foobar_response = Inr foobar_data"
    by (simp add: foobar_response_def)
  have e: "own_prop foobar_data ''candidates'' = JArr (?c # ?rest)"
    by (simp add: foobar_data_def)
  have f: "own_prop (own_prop ?c ''content'') ''parts'' = JArr ?ps"
    by simp
  have g: "list_all is_part ?ps"
    by (simp add: is_part_def)
  have h: "concat (map text_of ?ps) = ''foobar''"
    by (simp add: text_of_def)
  from gemini_reply_content [where fetch = "stub_upstream foobar_response"
      and cfg = "\<lparr>GOOGLE_API_KEY = ''AIzaK'', OPENAI_API_KEY = []\<rparr>", OF a b c d]
  have "own_prop foobar_data ''candidates'' = JArr (?c # ?rest) \<and>
      own_prop (own_prop ?c ''content'') ''parts'' = JArr ?ps \<and> list_all is_part ?ps \<longrightarrow>
      fst (callGemini \<lparr>GOOGLE_API_KEY = ''AIzaK'', OPENAI_API_KEY = []\<rparr>
             (stub_upstream foobar_response) example_messages) =
        Inr (JObj [(''role'', JStr ''assistant''),
                   (''content'',
                      JStr (if concat (map text_of ?ps) \<noteq> [] then concat (map text_of ?ps)
                            else ''(no content)''))])"
    by blast
  with e f g have "fst (callGemini \<lparr>GOOGLE_API_KEY = ''AIzaK'', OPENAI_API_KEY = []\<rparr>
             (stub_upstream foobar_response) example_messages) =
        Inr (JObj [(''role'', JStr ''assistant''),
                   (''content'',
                      JStr (if concat (map text_of ?ps) \<noteq> [] then concat (map text_of ?ps)
                            else ''(no content)''))])"
    by blast
  then have r: "fst (callGemini \<lparr>GOOGLE_API_KEY = ''AIzaK'', OPENAI_API_KEY = []\<rparr>
             (stub_upstream foobar_response) example_messages) =
        Inr (JObj [(''role'', JStr ''assistant''), (''content'', JStr ''foobar'')])"
    by (simp only: h) simp
  show ?thesis
    using a c d e g r by simp
qed

text \<open>
  C3 with ``exactly when no candidate or no parts exist'' does not hold: the only
  candidate of \<open>empty_text_data\<close> has one text part, the empty string, and the reply's
  content is \<^verbatim>\<open>(no content)\<close>, not the concatenation of its text parts.
\<close>

theorem gemini_empty_text_counterexample:
  "own_prop empty_text_data ''candidates'' =
     JArr [JObj [(''content'', JObj [(''parts'', JArr [JObj [(''text'', JStr [])]])])]] \<and>
   concat (map text_of [JObj [(''text'', JStr [])]]) = [] \<and>
   fst (callGemini \<lparr>GOOGLE_API_KEY = ''AIzaK'', OPENAI_API_KEY = []\<rparr>
          (stub_upstream \<lparr>ok = True, status = 200, json_of = Inr empty_text_data\<rparr>)
          example_messages) =
     Inr (JObj [(''role'', JStr ''assistant''), (''content'', JStr ''(no content)'')])"
  by (simp add: candidate_parts_def empty_text_data_def opt_prop_def opt_index0_def nullish_def
      text_of_def callGemini_def Let_def gemini_contents_def gemini_content_of_def
      example_messages_def get_prop_def or_else_def stub_upstream_def gemini_text_def
      map_text_join_def js_join_def)

end
